theory Spec2Isabelle
  imports Main "HOL-Library.AList"
begin

section \<open>Python strings\<close>

text \<open>
  A Python string is the sequence of its code points, and \<open>len\<close> counts them. A HOL
  \<open>char\<close> is a code point below 256, so the strings of the model are the Python strings
  over Latin-1, and \<open>length\<close> is \<open>len\<close>. On these code points \<open>lower\<close> and \<open>isdigit\<close>
  are Python's \<open>str.lower\<close> and \<open>str.isdigit\<close>:
  \<^item> \<open>str.lower\<close> maps \<open>A\<close> to \<open>Z\<close> (65 to 90) and the capital letters U+00C0 to
    U+00DE (192 to 222), the multiplication sign U+00D7 (215) excepted, to the code
    point 32 places later, and leaves every other code point below 256 alone;
  \<^item> \<open>str.isdigit\<close> holds of \<open>0\<close> to \<open>9\<close> (48 to 57) and of the superscript digits
    U+00B2, U+00B3 and U+00B9 (178, 179, 185), which are digits without being decimal.
\<close>

definition lower_char :: "char \<Rightarrow> char" where
  "lower_char c =
     (if (65 \<le> (of_char c :: nat) \<and> (of_char c :: nat) \<le> 90)
         \<or> (192 \<le> (of_char c :: nat) \<and> (of_char c :: nat) \<le> 222
             \<and> (of_char c :: nat) \<noteq> 215)
      then char_of ((of_char c :: nat) + 32) else c)"

definition lower :: "string \<Rightarrow> string" where
  "lower s = map lower_char s"

definition isdigit_char :: "char \<Rightarrow> bool" where
  "isdigit_char c =
     ((48 \<le> (of_char c :: nat) \<and> (of_char c :: nat) \<le> 57)
      \<or> (of_char c :: nat) = 178 \<or> (of_char c :: nat) = 179 \<or> (of_char c :: nat) = 185)"

text \<open>\<open>str.isdigit\<close> is false on the empty string.\<close>

definition isdigit :: "string \<Rightarrow> bool" where
  "isdigit s = (s \<noteq> [] \<and> list_all isdigit_char s)"

section \<open>The Directory Service (AWS Organizations client)\<close>

record organizational_unit =
  ou_Id :: string
  ou_Name :: string

record account =
  acct_Id :: string
  acct_Name :: string
  acct_Email :: string

text \<open>
  The client \<open>orgs_client\<close>, as the answers it gives. A call that raises answers \<open>Inl\<close>
  with the text of the exception. A paginated listing is the list of its pages, fetched
  one by one while the \<open>for page in paginator.paginate(...)\<close> loop runs; a page whose
  fetch raises is \<open>Inl\<close>. \<open>list_parents\<close> and \<open>list_roots\<close> answer the list of ids
  under \<open>"Parents"\<close> and \<open>"Roots"\<close>. \<open>move_account\<close> answers the exception it raises,
  if any.
\<close>

record organizations =
  describe_account :: "string \<Rightarrow> string + account"
  list_parents :: "string \<Rightarrow> string + string list"
  list_roots :: "string + string list"
  list_organizational_units_for_parent :: "string \<Rightarrow> (string + organizational_unit list) list"
  list_accounts :: "(string + account list) list"
  move_account :: "string \<Rightarrow> string \<Rightarrow> string \<Rightarrow> string option"

section \<open>OU resolution: \<open>find_ou_by_name\<close>\<close>

text \<open>
  \<^verbatim>\<open>
  def find_ou_by_name(parent_id, ou_name):
      for page in paginator.paginate(ParentId=parent_id):
          for ou in page["OrganizationalUnits"]:
              if ou["Name"] == ou_name:          # simple: .lower() on both sides
                  return ou["Id"]
              child_ou_id = find_ou_by_name(ou["Id"], ou_name)
              if child_ou_id:
                  return child_ou_id
      return None
  \<close>
  The function calls itself once per unit it visits, to a depth the hierarchy decides.
  The model carries the depth still allowed as fuel: the outer \<open>option\<close> is \<open>None\<close> when
  the recursion would go deeper than the fuel. Inside, \<open>Inl e\<close> is an exception raised by
  a page fetch and \<open>Inr r\<close> is the returned value \<open>r\<close>, Python's \<open>None\<close> or an id.

  \<open>truthy_id\<close> is the test \<open>if child_ou_id:\<close>: \<open>None\<close> and the empty string are false.
\<close>

type_synonym find_result = "(string + string option) option"

definition truthy_id :: "string option \<Rightarrow> bool" where
  "truthy_id r = (case r of None \<Rightarrow> False | Some i \<Rightarrow> i \<noteq> [])"

text \<open>
  The inner loop over the units of one page. \<open>eq\<close> is the comparison of names,
  \<open>rec\<close> the recursive call. \<open>Some (Inr None)\<close> is the loop ending without a
  \<open>return\<close>; \<open>Some (Inr (Some i))\<close> is \<open>return i\<close>.
\<close>

primrec scan_page ::
  "(string \<Rightarrow> string \<Rightarrow> bool) \<Rightarrow> (string \<Rightarrow> find_result) \<Rightarrow>
   organizational_unit list \<Rightarrow> string \<Rightarrow> find_result" where
  "scan_page eq rec [] ou_name = Some (Inr None)"
| "scan_page eq rec (ou # ous) ou_name =
     (if eq (ou_Name ou) ou_name then Some (Inr (Some (ou_Id ou)))
      else (case rec (ou_Id ou) of
              None \<Rightarrow> None
            | Some (Inl e) \<Rightarrow> Some (Inl e)
            | Some (Inr child_ou_id) \<Rightarrow>
                if truthy_id child_ou_id then Some (Inr child_ou_id)
                else scan_page eq rec ous ou_name))"

text \<open>The outer loop over the pages; after the last page the function returns \<open>None\<close>.\<close>

primrec scan_pages ::
  "(string \<Rightarrow> string \<Rightarrow> bool) \<Rightarrow> (string \<Rightarrow> find_result) \<Rightarrow>
   (string + organizational_unit list) list \<Rightarrow> string \<Rightarrow> find_result" where
  "scan_pages eq rec [] ou_name = Some (Inr None)"
| "scan_pages eq rec (page # pages) ou_name =
     (case page of
        Inl e \<Rightarrow> Some (Inl e)
      | Inr ous \<Rightarrow>
          (case scan_page eq rec ous ou_name of
             None \<Rightarrow> None
           | Some (Inl e) \<Rightarrow> Some (Inl e)
           | Some (Inr (Some i)) \<Rightarrow> Some (Inr (Some i))
           | Some (Inr None) \<Rightarrow> scan_pages eq rec pages ou_name))"

primrec find_ou_by_name_with ::
  "(string \<Rightarrow> string \<Rightarrow> bool) \<Rightarrow> nat \<Rightarrow> organizations \<Rightarrow> string \<Rightarrow> string \<Rightarrow> find_result" where
  "find_ou_by_name_with eq 0 orgs_client parent_id ou_name = None"
| "find_ou_by_name_with eq (Suc fuel) orgs_client parent_id ou_name =
     scan_pages eq (\<lambda>child. find_ou_by_name_with eq fuel orgs_client child ou_name)
       (list_organizational_units_for_parent orgs_client parent_id) ou_name"

text \<open>The copy inside \<open>existing_ou\<close> compares with \<open>==\<close>.\<close>

definition existing_ou_find_ou_by_name ::
  "nat \<Rightarrow> organizations \<Rightarrow> string \<Rightarrow> string \<Rightarrow> find_result" where
  "existing_ou_find_ou_by_name = find_ou_by_name_with (\<lambda>a b. a = b)"

text \<open>The copy inside \<open>simple\<close> compares \<open>ou["Name"].lower() == ou_name.lower()\<close>.\<close>

definition simple_find_ou_by_name ::
  "nat \<Rightarrow> organizations \<Rightarrow> string \<Rightarrow> string \<Rightarrow> find_result" where
  "simple_find_ou_by_name = find_ou_by_name_with (\<lambda>a b. lower a = lower b)"

text \<open>
  Follows the spec's words (section 4.2), for comparison with the code: the resolver
  consumes the paginated child listing of a node exhaustively before it descends into
  any child, then searches in pre-order, comparing names case-insensitively. A page
  fetch that raises therefore raises before any child is visited.
\<close>

primrec fetch_all ::
  "(string + organizational_unit list) list \<Rightarrow> string + organizational_unit list" where
  "fetch_all [] = Inr []"
| "fetch_all (page # pages) =
     (case page of
        Inl e \<Rightarrow> Inl e
      | Inr ous \<Rightarrow> (case fetch_all pages of Inl e \<Rightarrow> Inl e | Inr rest \<Rightarrow> Inr (ous @ rest)))"

primrec resolve_siblings ::
  "(string \<Rightarrow> find_result) \<Rightarrow> organizational_unit list \<Rightarrow> string \<Rightarrow> find_result" where
  "resolve_siblings rec [] ou_name = Some (Inr None)"
| "resolve_siblings rec (ou # ous) ou_name =
     (if lower (ou_Name ou) = lower ou_name then Some (Inr (Some (ou_Id ou)))
      else (case rec (ou_Id ou) of
              None \<Rightarrow> None
            | Some (Inl e) \<Rightarrow> Some (Inl e)
            | Some (Inr (Some i)) \<Rightarrow> Some (Inr (Some i))
            | Some (Inr None) \<Rightarrow> resolve_siblings rec ous ou_name))"

primrec spec_resolve_exhaustive ::
  "nat \<Rightarrow> organizations \<Rightarrow> string \<Rightarrow> string \<Rightarrow> find_result" where
  "spec_resolve_exhaustive 0 orgs_client root_id ou_name = None"
| "spec_resolve_exhaustive (Suc fuel) orgs_client root_id ou_name =
     (case fetch_all (list_organizational_units_for_parent orgs_client root_id) of
        Inl e \<Rightarrow> Some (Inl e)
      | Inr siblings \<Rightarrow>
          resolve_siblings (\<lambda>child. spec_resolve_exhaustive fuel orgs_client child ou_name)
            siblings ou_name)"

section \<open>The inventory of units: \<open>get_ous_recursive\<close>\<close>

text \<open>
  \<^verbatim>\<open>
  def get_ous_recursive(parent_id, parent_name, level=0):
      ous = []
      try:
          for page in paginator.paginate(ParentId=parent_id):
              for ou in page["OrganizationalUnits"]:
                  ous.append({"name": ou["Name"], "id": ou["Id"], "level": level, ...})
                  child_ous = get_ous_recursive(ou["Id"], ou["Name"], level + 1)
                  ous.extend(child_ous)
      except Exception as e:
          console.print(...)
      return ous
  \<close>
  The traversal of \<open>list_ous\<close>: every unit is appended when it is met, followed by the
  units below it. An exception of a page fetch ends the loops and keeps what was
  collected. The \<open>display\<close> text of an entry and \<open>parent_name\<close>, which only the warning
  prints, are left out. \<open>None\<close> is again the recursion going deeper than the fuel.
\<close>

record ou_entry =
  e_name :: string
  e_id :: string
  e_level :: nat

type_synonym listing = "ou_entry list option"

primrec collect_page ::
  "(string \<Rightarrow> listing) \<Rightarrow> organizational_unit list \<Rightarrow> nat \<Rightarrow> listing" where
  "collect_page rec [] level = Some []"
| "collect_page rec (ou # ous) level =
     (case rec (ou_Id ou) of
        None \<Rightarrow> None
      | Some child_ous \<Rightarrow>
          (case collect_page rec ous level of
             None \<Rightarrow> None
           | Some rest \<Rightarrow>
               Some (\<lparr>e_name = ou_Name ou, e_id = ou_Id ou, e_level = level\<rparr>
                       # child_ous @ rest)))"

primrec collect_pages ::
  "(string \<Rightarrow> listing) \<Rightarrow> (string + organizational_unit list) list \<Rightarrow> nat \<Rightarrow> listing" where
  "collect_pages rec [] level = Some []"
| "collect_pages rec (page # pages) level =
     (case page of
        Inl e \<Rightarrow> Some []
      | Inr ous \<Rightarrow>
          (case collect_page rec ous level of
             None \<Rightarrow> None
           | Some found \<Rightarrow>
               (case collect_pages rec pages level of
                  None \<Rightarrow> None
                | Some rest \<Rightarrow> Some (found @ rest))))"

primrec get_ous_recursive :: "nat \<Rightarrow> organizations \<Rightarrow> string \<Rightarrow> nat \<Rightarrow> listing" where
  "get_ous_recursive 0 orgs_client parent_id level = None"
| "get_ous_recursive (Suc fuel) orgs_client parent_id level =
     collect_pages (\<lambda>child. get_ous_recursive fuel orgs_client child (level + 1))
       (list_organizational_units_for_parent orgs_client parent_id) level"

text \<open>The id of the first entry of a listing whose name \<open>eq\<close> accepts.\<close>

definition first_match ::
  "(string \<Rightarrow> string \<Rightarrow> bool) \<Rightarrow> string \<Rightarrow> ou_entry list \<Rightarrow> string option" where
  "first_match eq ou_name entries =
     map_option e_id (List.find (\<lambda>e. eq (e_name e) ou_name) entries)"

text \<open>No page fetch raises, and every unit has a non-empty id.\<close>

definition listing_sound :: "organizations \<Rightarrow> bool" where
  "listing_sound orgs_client =
     (\<forall>p. \<forall>page \<in> set (list_organizational_units_for_parent orgs_client p).
        case page of Inl e \<Rightarrow> False | Inr ous \<Rightarrow> \<forall>ou \<in> set ous. ou_Id ou \<noteq> [])"

text \<open>
  The hierarchy is a tree of finite height: \<open>h\<close> strictly decreases from a parent to
  each unit listed under it.
\<close>

definition height_bounded :: "(string \<Rightarrow> nat) \<Rightarrow> organizations \<Rightarrow> bool" where
  "height_bounded h orgs_client =
     (\<forall>p. \<forall>page \<in> set (list_organizational_units_for_parent orgs_client p).
        case page of Inl e \<Rightarrow> True | Inr ous \<Rightarrow> \<forall>ou \<in> set ous. h (ou_Id ou) < h p)"

section \<open>The move commands: \<open>existing_ou\<close> and \<open>simple\<close>\<close>

text \<open>
  What a run of a command ends with: the message it prints last (one constructor per
  \<open>console.print\<close> that ends a path) and the \<open>move_account\<close> calls it issued, in order.
\<close>

datatype report =
    InvalidAccountId
  | InvalidOUName
  | AccountInfoFailed string
  | AccountNotFound
  | AccountSearchFailed string
  | CurrentParentFailed string
  | TargetOUNotFound
  | FindTargetOUFailed string
  | DryRunReported string string string
  | MoveCancelled
  | Moved
  | MoveFailed string
  | CommandError string

record move_call =
  AccountId :: string
  SourceParentId :: string
  DestinationParentId :: string

record outcome =
  report :: report
  move_calls :: "move_call list"

definition finished :: "report \<Rightarrow> outcome" where
  "finished r = \<lparr>report = r, move_calls = []\<rparr>"

text \<open>\<open>current_parent = parents["Parents"][0] if parents["Parents"] else None\<close>\<close>

definition first_parent :: "string list \<Rightarrow> string option" where
  "first_parent parents = (case parents of [] \<Rightarrow> None | p # _ \<Rightarrow> Some p)"

text \<open>
  The end of both commands, from the dry-run test on; the two copies differ in the texts
  they print only. \<open>confirm\<close> is the operator's answer to \<open>click.confirm\<close>.
  \<open>current_parent["Id"]\<close> raises \<open>TypeError\<close> when \<open>current_parent\<close> is \<open>None\<close>: in the
  dry run the \<open>except\<close> of the whole command catches it; in the live run it is raised
  while the arguments of \<open>move_account\<close> are evaluated, inside the \<open>try\<close> around the
  call, so the call is not made. The text of the \<open>TypeError\<close> is written without its
  quotation marks.
\<close>

definition none_not_subscriptable :: string where
  "none_not_subscriptable = ''NoneType object is not subscriptable''"

definition perform_move ::
  "organizations \<Rightarrow> bool \<Rightarrow> bool \<Rightarrow> string \<Rightarrow> string option \<Rightarrow> string \<Rightarrow> outcome" where
  "perform_move orgs_client confirm dry_run account_id current_parent target_ou_id =
     (if dry_run then
        (case current_parent of
           None \<Rightarrow> finished (CommandError none_not_subscriptable)
         | Some parent_id \<Rightarrow> finished (DryRunReported account_id parent_id target_ou_id))
      else if \<not> confirm then finished MoveCancelled
      else
        (case current_parent of
           None \<Rightarrow> finished (MoveFailed none_not_subscriptable)
         | Some parent_id \<Rightarrow>
             \<lparr>report = (case move_account orgs_client account_id parent_id target_ou_id of
                          None \<Rightarrow> Moved
                        | Some e \<Rightarrow> MoveFailed e),
              move_calls = [\<lparr>AccountId = account_id, SourceParentId = parent_id,
                              DestinationParentId = target_ou_id\<rparr>]\<rparr>))"

text \<open>
  \<open>root_id = roots["Roots"][0]["Id"]\<close>, inside the \<open>try\<close> that looks for the target
  unit: an exception of \<open>list_roots\<close> and the \<open>IndexError\<close> of an empty list are caught
  there.
\<close>

definition get_root_id :: "organizations \<Rightarrow> string + string" where
  "get_root_id orgs_client =
     (case list_roots orgs_client of
        Inl e \<Rightarrow> Inl e
      | Inr [] \<Rightarrow> Inl ''list index out of range''
      | Inr (root_id # _) \<Rightarrow> Inr root_id)"

text \<open>
  \<open>existing_ou(ctx, account_id, target_ou, dry_run)\<close>. \<open>validate_ou_name\<close> comes from
  \<open>lzaas.utils.validators\<close> and is a parameter. The result is \<open>None\<close> when the search
  for the target unit recurses deeper than the fuel.
\<close>

definition existing_ou ::
  "(string \<Rightarrow> bool) \<Rightarrow> nat \<Rightarrow> organizations \<Rightarrow> bool \<Rightarrow> string \<Rightarrow> string \<Rightarrow> bool \<Rightarrow>
   outcome option" where
  "existing_ou validate_ou_name fuel orgs_client confirm account_id target_ou dry_run =
     (if \<not> isdigit account_id \<or> length account_id \<noteq> 12 then Some (finished InvalidAccountId)
      else if \<not> validate_ou_name target_ou then Some (finished InvalidOUName)
      else
        (case describe_account orgs_client account_id of
           Inl e \<Rightarrow> Some (finished (AccountInfoFailed e))
         | Inr account \<Rightarrow>
        (case list_parents orgs_client account_id of
           Inl e \<Rightarrow> Some (finished (CurrentParentFailed e))
         | Inr parents \<Rightarrow>
        (case get_root_id orgs_client of
           Inl e \<Rightarrow> Some (finished (FindTargetOUFailed e))
         | Inr root_id \<Rightarrow>
        (case existing_ou_find_ou_by_name fuel orgs_client root_id target_ou of
           None \<Rightarrow> None
         | Some (Inl e) \<Rightarrow> Some (finished (FindTargetOUFailed e))
         | Some (Inr target_ou_id) \<Rightarrow>
             (case target_ou_id of
                None \<Rightarrow> Some (finished TargetOUNotFound)
              | Some i \<Rightarrow>
                  if i = [] then Some (finished TargetOUNotFound)
                  else Some (perform_move orgs_client confirm dry_run account_id
                               (first_parent parents) i)))))))"

text \<open>
  The search of \<open>simple\<close> for an account by name:
  \<^verbatim>\<open>
  for page in paginator.paginate():
      for account in page['Accounts']:
          if account['Name'].lower() == source.lower():
              account_id = account['Id']
              account_name = account['Name']
              break
      if account_id:
          break
  \<close>
  \<open>account_id\<close> and \<open>account_name\<close> start as \<open>None\<close>; an account found with an empty
  id does not end the outer loop.
\<close>

definition match_in_page :: "account list \<Rightarrow> string \<Rightarrow> account option" where
  "match_in_page accounts source =
     List.find (\<lambda>account. lower (acct_Name account) = lower source) accounts"

primrec search_accounts ::
  "(string + account list) list \<Rightarrow> string \<Rightarrow> string option \<times> string option \<Rightarrow>
   string + string option \<times> string option" where
  "search_accounts [] source found = Inr found"
| "search_accounts (page # pages) source found =
     (case page of
        Inl e \<Rightarrow> Inl e
      | Inr accounts \<Rightarrow>
          (let found' = (case match_in_page accounts source of
                           None \<Rightarrow> found
                         | Some account \<Rightarrow> (Some (acct_Id account), Some (acct_Name account)))
           in if truthy_id (fst found') then Inr found'
              else search_accounts pages source found'))"

text \<open>
  The first part of \<open>simple\<close>: the source account. \<open>Inl\<close> is the report the command
  ends with, \<open>Inr\<close> the \<open>account_id\<close> found.
\<close>

definition find_source_account :: "organizations \<Rightarrow> string \<Rightarrow> report + string" where
  "find_source_account orgs_client source =
     (if isdigit source \<and> length source = 12 then
        (case describe_account orgs_client source of
           Inl e \<Rightarrow> Inl (AccountInfoFailed e)
         | Inr account \<Rightarrow> Inr source)
      else
        (case search_accounts (list_accounts orgs_client) source (None, None) of
           Inl e \<Rightarrow> Inl (AccountSearchFailed e)
         | Inr (account_id, account_name) \<Rightarrow>
             (case account_id of
                None \<Rightarrow> Inl AccountNotFound
              | Some i \<Rightarrow> if i = [] then Inl AccountNotFound else Inr i)))"

text \<open>\<open>simple(ctx, source, target, dry_run)\<close>\<close>

definition simple ::
  "nat \<Rightarrow> organizations \<Rightarrow> bool \<Rightarrow> string \<Rightarrow> string \<Rightarrow> bool \<Rightarrow> outcome option" where
  "simple fuel orgs_client confirm source target dry_run =
     (case find_source_account orgs_client source of
        Inl r \<Rightarrow> Some (finished r)
      | Inr account_id \<Rightarrow>
     (case get_root_id orgs_client of
        Inl e \<Rightarrow> Some (finished (FindTargetOUFailed e))
      | Inr root_id \<Rightarrow>
     (case simple_find_ou_by_name fuel orgs_client root_id target of
        None \<Rightarrow> None
      | Some (Inl e) \<Rightarrow> Some (finished (FindTargetOUFailed e))
      | Some (Inr target_ou_id) \<Rightarrow>
          (case target_ou_id of
             None \<Rightarrow> Some (finished TargetOUNotFound)
           | Some i \<Rightarrow>
               if i = [] then Some (finished TargetOUNotFound)
               else
                 (case list_parents orgs_client account_id of
                    Inl e \<Rightarrow> Some (finished (CurrentParentFailed e))
                  | Inr parents \<Rightarrow>
                      Some (perform_move orgs_client confirm dry_run account_id
                              (first_parent parents) i))))))"

text \<open>
  The commands as the interpreter runs them. The search of \<open>find_ou_by_name\<close> has no
  depth bound of its own; the bound is Python's recursion limit. \<open>fuel\<close> is the depth
  the interpreter still allows when the search starts: a search that goes deeper raises
  \<open>RecursionError\<close> (an \<open>Exception\<close>) inside the \<open>try\<close> that looks for the target unit,
  and its \<open>except Exception\<close> prints the failure and ends the command.
\<close>

definition recursion_error :: string where
  "recursion_error = ''maximum recursion depth exceeded''"

definition run_existing_ou ::
  "(string \<Rightarrow> bool) \<Rightarrow> nat \<Rightarrow> organizations \<Rightarrow> bool \<Rightarrow> string \<Rightarrow> string \<Rightarrow> bool \<Rightarrow>
   outcome" where
  "run_existing_ou validate_ou_name fuel orgs_client confirm account_id target_ou dry_run =
     (case existing_ou validate_ou_name fuel orgs_client confirm account_id target_ou dry_run of
        None \<Rightarrow> finished (FindTargetOUFailed recursion_error)
      | Some out \<Rightarrow> out)"

definition run_simple ::
  "nat \<Rightarrow> organizations \<Rightarrow> bool \<Rightarrow> string \<Rightarrow> string \<Rightarrow> bool \<Rightarrow> outcome" where
  "run_simple fuel orgs_client confirm source target dry_run =
     (case simple fuel orgs_client confirm source target dry_run of
        None \<Rightarrow> finished (FindTargetOUFailed recursion_error)
      | Some out \<Rightarrow> out)"

section \<open>The Request Ledger: \<open>AFTManager\<close>\<close>

text \<open>
  A value of an item. The code applies two operations to the values it reads, \<open>str(v)\<close>
  and the truth test \<open>if v\<close>; a value that is neither \<open>None\<close> nor a string (a number,
  a mapping) is \<open>VOther\<close> with its \<open>str\<close> text and its truth value.
\<close>

datatype pyval = VNone | VStr string | VOther string bool

fun py_str :: "pyval \<Rightarrow> string" where
  "py_str VNone = ''None''"
| "py_str (VStr s) = s"
| "py_str (VOther s b) = s"

fun truthy :: "pyval \<Rightarrow> bool" where
  "truthy VNone = False"
| "truthy (VStr s) = (s \<noteq> [])"
| "truthy (VOther s b) = b"

text \<open>A dict with string keys: an association list with distinct keys, read with \<open>map_of\<close>.\<close>

type_synonym item = "(string \<times> pyval) list"

text \<open>
  The exceptions of the methods: a \<open>ClientError\<close> of the service with its error code, a
  \<open>ParamValidationError\<close> of botocore (which is not a \<open>ClientError\<close>) with its text, and
  the \<open>Exception(f"...: {str(e)}")\<close> the methods raise around another one.
\<close>

datatype exn = ClientError string | ParamValidationError string | Exception string exn

text \<open>
  The DynamoDB service behind \<open>self.dynamodb\<close>: the items of the table
  \<open>lzaas-account-requests\<close> by their key \<open>request_id\<close>, or \<open>None\<close> when the table does
  not exist; \<open>fault\<close>, the error code with which the service refuses every call, if any
  (missing permission, throttling); \<open>rejects\<close>, the attribute names the service refuses
  when they stand unescaped in an update expression (reserved words, names that are not
  a plain identifier).
\<close>

record dynamodb =
  table :: "(string \<rightharpoonup> item) option"
  fault :: "string option"
  rejects :: "string \<Rightarrow> bool"

record execution =
  pipelineExecutionId :: string
  execution_status :: string

record pipeline =
  pipeline_name :: string
  pipelineExecutionSummaries :: "execution list"

text \<open>The fields of \<open>self\<close> that the methods use.\<close>

record aft_manager =
  dynamodb :: dynamodb
  codepipeline :: "pipeline list"

text \<open>
  \<open>table = self.dynamodb.Table(self.table_name); table.load()\<close>: the table, or the
  code of the \<open>ClientError\<close> that \<open>load\<close> raises.
\<close>

definition load :: "dynamodb \<Rightarrow> string + (string \<rightharpoonup> item)" where
  "load db =
     (case fault db of
        Some code \<Rightarrow> Inl code
      | None \<Rightarrow> (case table db of None \<Rightarrow> Inl ''ResourceNotFoundException'' | Some t \<Rightarrow> Inr t))"

text \<open>
  \<open>_create_table\<close>:
  \<^verbatim>\<open>
  try:
      table = self.dynamodb.create_table(
          TableName=self.table_name,
          KeySchema=[...],
          AttributeDefinitions=[...],
          GlobalSecondaryIndexes=[
              {"IndexName": "client-status-index",
               "KeySchema": [...],
               "Projection": {"ProjectionType": "ALL"},
               "BillingMode": "PAY_PER_REQUEST"}],
          BillingMode="PAY_PER_REQUEST")
      table.wait_until_exists()
      return table
  except ClientError as e:
      raise Exception(f"Failed to create DynamoDB table: {str(e)}")
  \<close>
  \<open>BillingMode\<close> is not a member of an entry of \<open>GlobalSecondaryIndexes\<close>. botocore
  validates the parameters of a call before it sends anything and refuses this one with
  a \<open>ParamValidationError\<close>, which is not a \<open>ClientError\<close>: the \<open>except\<close> does not catch
  it. The method therefore raises on every call, whatever the state of the service, and
  creates no table.
\<close>

definition unknown_parameter :: string where
  "unknown_parameter = ''Unknown parameter in GlobalSecondaryIndexes[0]: BillingMode''"

definition create_table ::
  "aft_manager \<Rightarrow> (exn + (string \<rightharpoonup> item)) \<times> aft_manager" where
  "create_table self = (Inl (ParamValidationError unknown_parameter), self)"

text \<open>
  \<open>_get_table\<close>: "Get or create DynamoDB table". \<open>_create_table\<close> is called inside the
  \<open>except ClientError\<close> of \<open>load\<close>; what it raises leaves \<open>_get_table\<close> as it is.
\<close>

definition get_table ::
  "aft_manager \<Rightarrow> (exn + (string \<rightharpoonup> item)) \<times> aft_manager" where
  "get_table self =
     (case load (dynamodb self) of
        Inr t \<Rightarrow> (Inr t, self)
      | Inl code \<Rightarrow>
          if code = ''ResourceNotFoundException'' then create_table self
          else (Inl (Exception ''DynamoDB error: '' (ClientError code)), self))"

text \<open>
  \<open>table.put_item(Item=item)\<close> without a condition expression: the item is stored under
  its key and replaces an item with the same key. The key attribute must be a string.
\<close>

definition put_item :: "(string \<rightharpoonup> item) \<Rightarrow> item \<Rightarrow> exn + (string \<rightharpoonup> item)" where
  "put_item t it =
     (case map_of it ''request_id'' of
        Some (VStr k) \<Rightarrow> Inr (t(k \<mapsto> it))
      | _ \<Rightarrow> Inl (ClientError ''ValidationException''))"

text \<open>
  Modelled from the spec: \<open>AccountRequest\<close> and its \<open>to_dict\<close> are in
  \<open>lzaas/core/models.py\<close>, which is not among the sources. The persisted shape of
  section 6 is \<open>request_id\<close>, the primary key, plus the remaining fields as the record
  body.
\<close>

record account_request =
  request_id :: string
  body :: item

definition to_dict :: "account_request \<Rightarrow> item" where
  "to_dict account_request =
     (''request_id'', VStr (request_id account_request))
       # filter (\<lambda>kv. fst kv \<noteq> ''request_id'') (body account_request)"

text \<open>
  \<open>create_account_request\<close>: \<open>Inr request_id\<close> is \<open>{"success": True, ...}\<close>, \<open>Inl e\<close> is
  \<open>{"success": False, "error": str(e)}\<close>.
\<close>

definition create_account_request ::
  "aft_manager \<Rightarrow> account_request \<Rightarrow> (exn + string) \<times> aft_manager" where
  "create_account_request self account_request =
     (case get_table self of
        (Inl e, self') \<Rightarrow> (Inl e, self')
      | (Inr t, self') \<Rightarrow>
          (case put_item t (to_dict account_request) of
             Inl e \<Rightarrow> (Inl e, self')
           | Inr t' \<Rightarrow>
               (Inr (request_id account_request),
                self'\<lparr>dynamodb := (dynamodb self')\<lparr>table := Some t'\<rparr>\<rparr>)))"

text \<open>
  \<open>get_account_request\<close>: \<open>response.get("Item")\<close> is the item or \<open>None\<close>; an exception is
  raised again, wrapped.
\<close>

definition get_account_request ::
  "aft_manager \<Rightarrow> string \<Rightarrow> (exn + item option) \<times> aft_manager" where
  "get_account_request self rid =
     (case get_table self of
        (Inl e, self') \<Rightarrow> (Inl (Exception ''Failed to get account request: '' e), self')
      | (Inr t, self') \<Rightarrow> (Inr (t rid), self'))"

text \<open>
  The arguments \<open>update_account_request\<close> builds for \<open>update_item\<close>. The update
  expression \<open>"SET a = :a, #status = :status"\<close> is the list of its clauses; the left
  side of a clause is a \<open>#name\<close> that \<open>ExpressionAttributeNames\<close> resolves, or the text
  of the key itself.
\<close>

datatype target = NameRef string | Attr string

record update_kwargs =
  UpdateExpression :: "(target \<times> string) list"
  ExpressionAttributeValues :: item
  ExpressionAttributeNames :: "(string \<times> string) list"

text \<open>One round of \<open>for key, value in updates.items()\<close>.\<close>

definition add_clause :: "string \<times> pyval \<Rightarrow> update_kwargs \<Rightarrow> update_kwargs" where
  "add_clause kv kw =
     (if fst kv = ''status'' then
        \<lparr>UpdateExpression = UpdateExpression kw @ [(NameRef ''#status'', '':status'')],
         ExpressionAttributeValues =
           AList.update '':status'' (snd kv) (ExpressionAttributeValues kw),
         ExpressionAttributeNames =
           AList.update ''#status'' ''status'' (ExpressionAttributeNames kw)\<rparr>
      else
        \<lparr>UpdateExpression = UpdateExpression kw @ [(Attr (fst kv), '':'' @ fst kv)],
         ExpressionAttributeValues =
           AList.update ('':'' @ fst kv) (snd kv) (ExpressionAttributeValues kw),
         ExpressionAttributeNames = ExpressionAttributeNames kw\<rparr>)"

primrec build_update :: "item \<Rightarrow> update_kwargs \<Rightarrow> update_kwargs" where
  "build_update [] kw = kw"
| "build_update (kv # updates) kw = build_update updates (add_clause kv kw)"

text \<open>
  \<open>table.update_item\<close> with a \<open>SET\<close> expression, as the service runs it: each clause
  names an attribute and a value; an unescaped name the service rejects, a placeholder
  without a binding and an assignment to the key attribute are refused with a
  \<open>ValidationException\<close>. The item is the stored one, or a new item made of the key when
  none is stored; the result is the new table and the item after the update
  (\<open>ReturnValues="ALL_NEW"\<close>).
\<close>

primrec apply_clauses ::
  "(string \<Rightarrow> bool) \<Rightarrow> item \<Rightarrow> (string \<times> string) list \<Rightarrow> (target \<times> string) list \<Rightarrow>
   item \<Rightarrow> exn + item" where
  "apply_clauses rej vals names [] it = Inr it"
| "apply_clauses rej vals names (clause # clauses) it =
     (case (case fst clause of
              NameRef n \<Rightarrow> map_of names n
            | Attr a \<Rightarrow> if rej a then None else Some a) of
        None \<Rightarrow> Inl (ClientError ''ValidationException'')
      | Some attr \<Rightarrow>
          (case map_of vals (snd clause) of
             None \<Rightarrow> Inl (ClientError ''ValidationException'')
           | Some v \<Rightarrow>
               if attr = ''request_id'' then Inl (ClientError ''ValidationException'')
               else apply_clauses rej vals names clauses (AList.update attr v it)))"

definition update_item ::
  "(string \<Rightarrow> bool) \<Rightarrow> (string \<rightharpoonup> item) \<Rightarrow> string \<Rightarrow> update_kwargs \<Rightarrow>
   exn + (string \<rightharpoonup> item) \<times> item" where
  "update_item rej t k kw =
     (case apply_clauses rej (ExpressionAttributeValues kw) (ExpressionAttributeNames kw)
             (UpdateExpression kw)
             (case t k of None \<Rightarrow> [(''request_id'', VStr k)] | Some it \<Rightarrow> it) of
        Inl e \<Rightarrow> Inl e
      | Inr it' \<Rightarrow> Inr (t(k \<mapsto> it'), it'))"

text \<open>
  \<open>update_account_request\<close>; \<open>now\<close> is \<open>datetime.utcnow().isoformat()\<close>. \<open>Inr item\<close> is
  \<open>{"success": True, "updated_item": item}\<close>.
\<close>

definition update_account_request ::
  "aft_manager \<Rightarrow> string \<Rightarrow> string \<Rightarrow> item \<Rightarrow> (exn + item) \<times> aft_manager" where
  "update_account_request self now rid updates =
     (case get_table self of
        (Inl e, self') \<Rightarrow> (Inl e, self')
      | (Inr t, self') \<Rightarrow>
          (case update_item (rejects (dynamodb self')) t rid
                  (build_update (AList.update ''updated_date'' (VStr now) updates)
                     \<lparr>UpdateExpression = [], ExpressionAttributeValues = [],
                      ExpressionAttributeNames = []\<rparr>) of
             Inl e \<Rightarrow> (Inl e, self')
           | Inr (t', it') \<Rightarrow>
               (Inr it', self'\<lparr>dynamodb := (dynamodb self')\<lparr>table := Some t'\<rparr>\<rparr>)))"

text \<open>
  \<open>AFTStatus\<close>, with the fields \<open>get_aft_status\<close> sets; the class is declared in
  \<open>lzaas/core/models.py\<close>.
\<close>

record aft_status =
  status_request_id :: string
  pipeline_status :: string
  status_account_id :: "string option"
  last_updated :: "string option"

text \<open>\<open>request.get(key)\<close>, then \<open>str(v) if v else None\<close>.\<close>

definition str_if_truthy :: "item \<Rightarrow> string \<Rightarrow> string option" where
  "str_if_truthy request k =
     (case map_of request k of
        None \<Rightarrow> None
      | Some v \<Rightarrow> if truthy v then Some (py_str v) else None)"

text \<open>
  \<open>get_aft_status\<close>: \<open>if not request: return None\<close> holds for \<open>None\<close> and for the empty
  dict.
\<close>

definition get_aft_status ::
  "aft_manager \<Rightarrow> string \<Rightarrow> (exn + aft_status option) \<times> aft_manager" where
  "get_aft_status self rid =
     (case get_account_request self rid of
        (Inl e, self') \<Rightarrow> (Inl (Exception ''Failed to get AFT status: '' e), self')
      | (Inr request, self') \<Rightarrow>
          (case request of
             None \<Rightarrow> (Inr None, self')
           | Some r \<Rightarrow>
               if r = [] then (Inr None, self')
               else
                 (Inr (Some \<lparr>status_request_id = rid,
                              pipeline_status =
                                (case map_of r ''status'' of
                                   None \<Rightarrow> ''unknown''
                                 | Some v \<Rightarrow> py_str v),
                              status_account_id = str_if_truthy r ''account_id'',
                              last_updated = str_if_truthy r ''updated_date''\<rparr>),
                  self')))"

text \<open>
  \<open>list_aft_pipelines\<close>, the method that does query the Pipeline Service: the pipelines
  whose name contains \<open>aft\<close>, each with its latest executions (at most 5, newest first).
\<close>

fun contains :: "string \<Rightarrow> string \<Rightarrow> bool" where
  "contains sub [] = (sub = [])"
| "contains sub (c # s) = (take (length sub) (c # s) = sub \<or> contains sub s)"

definition list_aft_pipelines :: "aft_manager \<Rightarrow> pipeline list" where
  "list_aft_pipelines self =
     map (\<lambda>p. p\<lparr>pipelineExecutionSummaries := take 5 (pipelineExecutionSummaries p)\<rparr>)
       (filter (\<lambda>p. contains ''aft'' (lower (pipeline_name p))) (codepipeline self))"

text \<open>The requests the Ledger holds: the items of the table, none when there is no table.\<close>

definition stored_requests :: "aft_manager \<Rightarrow> (string \<rightharpoonup> item)" where
  "stored_requests self = (case table (dynamodb self) of None \<Rightarrow> Map.empty | Some t \<Rightarrow> t)"

section \<open>Example inputs\<close>

text \<open>
  An organization \<open>r-root \<rightarrow> {A, B}\<close> in which \<open>A\<close> and \<open>B\<close> each have a child named
  \<open>Sandbox\<close>. The account \<open>111122223333\<close> lies in the \<open>Sandbox\<close> below \<open>A\<close>; a second
  account has a name that is itself twelve digits.
\<close>

definition two_sandboxes :: organizations where
  "two_sandboxes =
     \<lparr>describe_account =
        (\<lambda>a. if a = ''111122223333''
              then Inr \<lparr>acct_Id = a, acct_Name = ''dev'', acct_Email = ''dev@example.com''\<rparr>
              else Inl ''AccountNotFoundException''),
      list_parents =
        (\<lambda>a. if a = ''111122223333'' then Inr [''ou-a-sandbox'']
              else Inl ''ChildNotFoundException''),
      list_roots = Inr [''r-root''],
      list_organizational_units_for_parent =
        (\<lambda>p. if p = ''r-root''
              then [Inr [\<lparr>ou_Id = ''ou-a'', ou_Name = ''A''\<rparr>, \<lparr>ou_Id = ''ou-b'', ou_Name = ''B''\<rparr>]]
              else if p = ''ou-a'' then [Inr [\<lparr>ou_Id = ''ou-a-sandbox'', ou_Name = ''Sandbox''\<rparr>]]
              else if p = ''ou-b'' then [Inr [\<lparr>ou_Id = ''ou-b-sandbox'', ou_Name = ''Sandbox''\<rparr>]]
              else []),
      list_accounts =
        [Inr [\<lparr>acct_Id = ''111122223333'', acct_Name = ''dev'', acct_Email = ''dev@example.com''\<rparr>,
              \<lparr>acct_Id = ''444455556666'', acct_Name = ''999988887777'',
               acct_Email = ''ops@example.com''\<rparr>]],
      move_account = (\<lambda>a src dst. None)\<rparr>"

definition two_sandboxes_height :: "string \<Rightarrow> nat" where
  "two_sandboxes_height p =
     (if p = ''r-root'' then 2 else if p = ''ou-a'' \<or> p = ''ou-b'' then 1 else 0)"

text \<open>The same root, whose second page of children cannot be fetched.\<close>

definition throttled_orgs :: organizations where
  "throttled_orgs =
     two_sandboxes\<lparr>list_organizational_units_for_parent :=
        (\<lambda>p. if p = ''r-root''
              then [Inr [\<lparr>ou_Id = ''ou-a'', ou_Name = ''A''\<rparr>], Inl ''ThrottlingException'']
              else if p = ''ou-a'' then [Inr [\<lparr>ou_Id = ''ou-a-sandbox'', ou_Name = ''Sandbox''\<rparr>]]
              else [])\<rparr>"

text \<open>A hierarchy that is not a tree: the unit \<open>A\<close> is listed under every parent, itself included.\<close>

definition cyclic_orgs :: organizations where
  "cyclic_orgs =
     two_sandboxes\<lparr>list_organizational_units_for_parent :=
        (\<lambda>p. [Inr [\<lparr>ou_Id = ''ou-a'', ou_Name = ''A''\<rparr>]])\<rparr>"

text \<open>
  A ledger holding one pending request, next to a pipeline whose latest execution is in
  progress.
\<close>

definition pending_request :: account_request where
  "pending_request =
     \<lparr>request_id = ''migrate-2025-01-10-abc12345'',
      body = [(''status'', VStr ''pending''), (''client_id'', VStr ''acme''),
              (''email'', VStr ''dev@example.com'')]\<rparr>"

definition colliding_request :: account_request where
  "colliding_request =
     \<lparr>request_id = ''migrate-2025-01-10-abc12345'',
      body = [(''status'', VStr ''pending''), (''client_id'', VStr ''other''),
              (''email'', VStr ''ops@example.com'')]\<rparr>"

definition ledger_manager :: aft_manager where
  "ledger_manager =
     \<lparr>dynamodb =
        \<lparr>table = Some [''migrate-2025-01-10-abc12345'' \<mapsto> to_dict pending_request],
         fault = None,
         rejects = (\<lambda>a. a = ''status'' \<or> a = ''name'')\<rparr>,
      codepipeline =
        [\<lparr>pipeline_name = ''aft-account-provisioning-framework'',
          pipelineExecutionSummaries =
            [\<lparr>pipelineExecutionId = ''exec-1'', execution_status = ''InProgress''\<rparr>]\<rparr>]\<rparr>"


section \<open>OU resolution: the order of the search\<close>

lemma find_append:
  "List.find P (xs @ ys) = (case List.find P xs of None \<Rightarrow> List.find P ys | Some x \<Rightarrow> Some x)"
  by (induction xs) auto

lemma first_match_append:
  "first_match eq n (xs @ ys) =
     (case first_match eq n xs of None \<Rightarrow> first_match eq n ys | Some i \<Rightarrow> Some i)"
  by (simp add: first_match_def find_append split: option.splits)

lemma first_match_Cons:
  "first_match eq n (e # xs) = (if eq (e_name e) n then Some (e_id e) else first_match eq n xs)"
  by (simp add: first_match_def)

lemma first_match_Nil: "first_match eq n [] = None"
  by (simp add: first_match_def)

lemma truthy_first_match:
  "\<forall>e\<in>set xs. e_id e \<noteq> [] \<Longrightarrow> truthy_id (first_match eq n xs) = (first_match eq n xs \<noteq> None)"
  by (induction xs) (auto simp: first_match_Cons first_match_Nil truthy_id_def)

lemma scan_page_first_match:
  assumes "collect_page recL ous level = Some ys"
    and "\<forall>ou\<in>set ous. ou_Id ou \<noteq> []"
    and "\<And>ou xs. ou \<in> set ous \<Longrightarrow> recL (ou_Id ou) = Some xs \<Longrightarrow>
           (\<forall>e\<in>set xs. e_id e \<noteq> []) \<and> recF (ou_Id ou) = Some (Inr (first_match eq n xs))"
  shows "(\<forall>e\<in>set ys. e_id e \<noteq> []) \<and> scan_page eq recF ous n = Some (Inr (first_match eq n ys))"
  using assms
proof (induction ous arbitrary: ys)
  case Nil
  then show ?case by (simp add: first_match_Nil)
next
  case (Cons ou ous)
  from Cons.prems(1) obtain child_ous rest where
    c: "recL (ou_Id ou) = Some child_ous" and r: "collect_page recL ous level = Some rest"
    and ys: "ys = \<lparr>e_name = ou_Name ou, e_id = ou_Id ou, e_level = level\<rparr> # child_ous @ rest"
    by (auto split: option.splits)
  from Cons.prems(3)[of ou child_ous] c have
    ch: "\<forall>e\<in>set child_ous. e_id e \<noteq> []" and
    rf: "recF (ou_Id ou) = Some (Inr (first_match eq n child_ous))"
    by auto
  have ih: "(\<forall>e\<in>set rest. e_id e \<noteq> []) \<and> scan_page eq recF ous n = Some (Inr (first_match eq n rest))"
    using Cons.IH[OF r] Cons.prems(2,3) by auto
  have ne: "ou_Id ou \<noteq> []" using Cons.prems(2) by simp
  show ?case
    using ih ch rf ne truthy_first_match[OF ch, of eq n]
    by (auto simp: ys first_match_Cons first_match_append split: option.splits)
qed

lemma scan_pages_first_match:
  assumes "collect_pages recL pages level = Some ys"
    and "\<forall>pg\<in>set pages. case pg of Inl e \<Rightarrow> False | Inr ous \<Rightarrow> \<forall>ou\<in>set ous. ou_Id ou \<noteq> []"
    and "\<And>ous ou xs. Inr ous \<in> set pages \<Longrightarrow> ou \<in> set ous \<Longrightarrow> recL (ou_Id ou) = Some xs \<Longrightarrow>
           (\<forall>e\<in>set xs. e_id e \<noteq> []) \<and> recF (ou_Id ou) = Some (Inr (first_match eq n xs))"
  shows "(\<forall>e\<in>set ys. e_id e \<noteq> []) \<and> scan_pages eq recF pages n = Some (Inr (first_match eq n ys))"
  using assms
proof (induction pages arbitrary: ys)
  case Nil
  then show ?case by (simp add: first_match_Nil)
next
  case (Cons pg pages)
  from Cons.prems(2) obtain ous where pg: "pg = Inr ous" and ne: "\<forall>ou\<in>set ous. ou_Id ou \<noteq> []"
    by (cases pg) auto
  from Cons.prems(1) pg obtain found rest where
    f: "collect_page recL ous level = Some found" and r: "collect_pages recL pages level = Some rest"
    and ys: "ys = found @ rest"
    by (auto split: option.splits)
  have pf: "(\<forall>e\<in>set found. e_id e \<noteq> []) \<and> scan_page eq recF ous n = Some (Inr (first_match eq n found))"
    by (rule scan_page_first_match[OF f ne]) (use Cons.prems(3) pg in auto)
  have ih: "(\<forall>e\<in>set rest. e_id e \<noteq> []) \<and> scan_pages eq recF pages n = Some (Inr (first_match eq n rest))"
    using Cons.IH[OF r] Cons.prems(2,3) by auto
  show ?case
    using pf ih by (auto simp: pg ys first_match_append split: option.splits)
qed

lemma find_ou_by_name_with_first_match:
  assumes "listing_sound orgs"
  shows "get_ous_recursive fuel orgs p level = Some ys \<Longrightarrow>
     (\<forall>e\<in>set ys. e_id e \<noteq> []) \<and>
       find_ou_by_name_with eq fuel orgs p n = Some (Inr (first_match eq n ys))"
proof (induction fuel arbitrary: p level ys)
  case 0
  then show ?case by simp
next
  case (Suc fuel)
  have pages: "\<forall>pg\<in>set (list_organizational_units_for_parent orgs p).
                 case pg of Inl e \<Rightarrow> False | Inr ous \<Rightarrow> \<forall>ou\<in>set ous. ou_Id ou \<noteq> []"
    using assms by (simp add: listing_sound_def)
  from Suc.prems have c: "collect_pages (\<lambda>child. get_ous_recursive fuel orgs child (level + 1))
       (list_organizational_units_for_parent orgs p) level = Some ys"
    by simp
  show ?case
    unfolding find_ou_by_name_with.simps
    by (rule scan_pages_first_match[OF c pages]) (use Suc.IH in blast)
qed

text \<open>
  Claim C4, as the code has it. The search is depth-first and lazy: a unit is compared,
  then everything below it is searched, and only then the next sibling or the next page
  is looked at. \<open>get_ous_recursive\<close> lists the units in exactly that order. When no page
  fetch raises and every unit has a non-empty id, \<open>find_ou_by_name\<close> returns the id of
  the first unit of that pre-order listing whose name matches (case-insensitively in
  \<open>simple\<close>, exactly in \<open>existing_ou\<close>), or \<open>None\<close> when there is none. For
  \<open>root \<rightarrow> {A/Sandbox, B/Sandbox}\<close> this is the child of \<open>A\<close>.
\<close>

theorem find_ou_by_name_first_in_preorder:
  assumes "listing_sound orgs_client"
    and "get_ous_recursive fuel orgs_client root_id 0 = Some entries"
  shows "simple_find_ou_by_name fuel orgs_client root_id ou_name =
           Some (Inr (first_match (\<lambda>a b. lower a = lower b) ou_name entries))
       \<and> existing_ou_find_ou_by_name fuel orgs_client root_id ou_name =
           Some (Inr (first_match (\<lambda>a b. a = b) ou_name entries))"
  using find_ou_by_name_with_first_match[OF assms]
  by (simp add: simple_find_ou_by_name_def existing_ou_find_ou_by_name_def)

theorem find_ou_by_name_first_in_preorder_witness:
  "listing_sound two_sandboxes
   \<and> get_ous_recursive 3 two_sandboxes ''r-root'' 0 =
       Some [\<lparr>e_name = ''A'', e_id = ''ou-a'', e_level = 0\<rparr>,
             \<lparr>e_name = ''Sandbox'', e_id = ''ou-a-sandbox'', e_level = 1\<rparr>,
             \<lparr>e_name = ''B'', e_id = ''ou-b'', e_level = 0\<rparr>,
             \<lparr>e_name = ''Sandbox'', e_id = ''ou-b-sandbox'', e_level = 1\<rparr>]
   \<and> simple_find_ou_by_name 3 two_sandboxes ''r-root'' ''Sandbox'' = Some (Inr (Some ''ou-a-sandbox''))
   \<and> existing_ou_find_ou_by_name 3 two_sandboxes ''r-root'' ''Sandbox'' = Some (Inr (Some ''ou-a-sandbox''))"
proof -
  have s: "listing_sound two_sandboxes"
    by (simp add: listing_sound_def two_sandboxes_def)
  have g: "get_ous_recursive 3 two_sandboxes ''r-root'' 0 =
       Some [\<lparr>e_name = ''A'', e_id = ''ou-a'', e_level = 0\<rparr>,
             \<lparr>e_name = ''Sandbox'', e_id = ''ou-a-sandbox'', e_level = 1\<rparr>,
             \<lparr>e_name = ''B'', e_id = ''ou-b'', e_level = 0\<rparr>,
             \<lparr>e_name = ''Sandbox'', e_id = ''ou-b-sandbox'', e_level = 1\<rparr>]"
    by code_simp
  have l: "lower ''A'' \<noteq> lower ''Sandbox''" by (simp add: lower_def)
  show ?thesis
    using s g find_ou_by_name_first_in_preorder[OF s g, of "''Sandbox''"] l
    by (simp add: first_match_def)
qed

text \<open>
  Claim C4 says that the listing of a node is consumed to its end before the search
  descends. It is not: below, the second page of the root cannot be fetched, and the
  code returns the unit it found under the first page's unit \<open>A\<close> without ever asking for
  that page, where a resolver that exhausts the listing first raises.
\<close>

theorem find_ou_by_name_lazy_pages_counterexample:
  "simple_find_ou_by_name 3 throttled_orgs ''r-root'' ''Sandbox'' = Some (Inr (Some ''ou-a-sandbox''))
   \<and> spec_resolve_exhaustive 3 throttled_orgs ''r-root'' ''Sandbox'' = Some (Inl ''ThrottlingException'')"
  by code_simp

section \<open>OU resolution: termination\<close>

lemma scan_page_returns:
  "\<forall>ou\<in>set ous. \<exists>r. rec (ou_Id ou) = Some r \<Longrightarrow> \<exists>r. scan_page eq rec ous n = Some r"
  by (induction ous) (auto split: option.splits sum.splits)

lemma scan_pages_returns:
  "\<forall>pg\<in>set pages. case pg of Inl e \<Rightarrow> True | Inr ous \<Rightarrow> \<forall>ou\<in>set ous. \<exists>r. rec (ou_Id ou) = Some r
   \<Longrightarrow> \<exists>r. scan_pages eq rec pages n = Some r"
proof (induction pages)
  case Nil
  then show ?case by simp
next
  case (Cons pg pages)
  show ?case
  proof (cases pg)
    case (Inl e)
    then show ?thesis by simp
  next
    case (Inr ous)
    with Cons.prems have "\<forall>ou\<in>set ous. \<exists>r. rec (ou_Id ou) = Some r" by simp
    from scan_page_returns[OF this, of eq n] obtain r where "scan_page eq rec ous n = Some r" by blast
    with Cons Inr show ?thesis by (auto split: option.splits sum.splits)
  qed
qed

lemma find_ou_by_name_with_returns:
  assumes "height_bounded h orgs"
  shows "h p < fuel \<Longrightarrow> \<exists>r. find_ou_by_name_with eq fuel orgs p n = Some r"
proof (induction fuel arbitrary: p)
  case 0
  then show ?case by simp
next
  case (Suc fuel)
  have "\<forall>pg\<in>set (list_organizational_units_for_parent orgs p).
          case pg of Inl e \<Rightarrow> True
          | Inr ous \<Rightarrow> \<forall>ou\<in>set ous. \<exists>r. find_ou_by_name_with eq fuel orgs (ou_Id ou) n = Some r"
  proof
    fix pg assume pg: "pg \<in> set (list_organizational_units_for_parent orgs p)"
    show "case pg of Inl e \<Rightarrow> True
          | Inr ous \<Rightarrow> \<forall>ou\<in>set ous. \<exists>r. find_ou_by_name_with eq fuel orgs (ou_Id ou) n = Some r"
    proof (cases pg)
      case (Inl e)
      then show ?thesis by simp
    next
      case (Inr ous)
      have "\<forall>ou\<in>set ous. h (ou_Id ou) < h p"
        using assms pg Inr unfolding height_bounded_def by fastforce
      with Suc.prems have "\<forall>ou\<in>set ous. h (ou_Id ou) < fuel" by auto
      with Suc.IH Inr show ?thesis by simp
    qed
  qed
  from scan_pages_returns[OF this] show ?case by simp
qed

lemma find_ou_by_name_with_cyclic:
  "\<not> eq ''A'' ''Sandbox'' \<Longrightarrow> find_ou_by_name_with eq fuel cyclic_orgs p ''Sandbox'' = None"
  by (induction fuel arbitrary: p) (simp_all add: cyclic_orgs_def)

lemma find_ou_by_name_cyclic:
  "simple_find_ou_by_name fuel cyclic_orgs p ''Sandbox'' = None"
  "existing_ou_find_ou_by_name fuel cyclic_orgs p ''Sandbox'' = None"
  by (simp_all add: simple_find_ou_by_name_def existing_ou_find_ou_by_name_def
        find_ou_by_name_with_cyclic lower_def)

text \<open>
  Claim C9, as the code has it. OU resolution terminates on every hierarchy, but the
  traversal enforces no maximum depth and there is no \<open>MalformedHierarchy\<close>: what ends a
  recursion that goes too deep is the interpreter. When the search exceeds the depth
  the interpreter allows, \<open>RecursionError\<close> is raised, and the command reports that it
  failed to find the target unit and ends without a \<open>move_account\<close> call. On a tree of
  finite height \<open>h\<close> the search returns (a value or the exception of a page fetch) as
  soon as more than \<open>h root_id\<close> levels are allowed. So every run of a command ends:
  with the outcome of a search that stayed within the allowed depth, or with that
  report.
\<close>

theorem find_ou_by_name_bounded_by_recursion_limit:
  "(isdigit account_id \<and> length account_id = 12 \<and> validate_ou_name target_ou
      \<and> describe_account orgs_client account_id = Inr account
      \<and> list_parents orgs_client account_id = Inr parents
      \<and> get_root_id orgs_client = Inr root_id
      \<and> existing_ou_find_ou_by_name fuel orgs_client root_id target_ou = None
      \<longrightarrow> run_existing_ou validate_ou_name fuel orgs_client confirm account_id target_ou dry_run =
            \<lparr>report = FindTargetOUFailed recursion_error, move_calls = []\<rparr>)
   \<and> (find_source_account orgs_client source = Inr found_id
      \<and> get_root_id orgs_client = Inr root_id
      \<and> simple_find_ou_by_name fuel orgs_client root_id target_ou = None
      \<longrightarrow> run_simple fuel orgs_client confirm source target_ou dry_run =
            \<lparr>report = FindTargetOUFailed recursion_error, move_calls = []\<rparr>)
   \<and> (height_bounded h orgs_client \<and> h root_id < fuel
      \<longrightarrow> (\<exists>r. simple_find_ou_by_name fuel orgs_client root_id target_ou = Some r)
        \<and> (\<exists>r. existing_ou_find_ou_by_name fuel orgs_client root_id target_ou = Some r))
   \<and> (existing_ou validate_ou_name fuel orgs_client confirm account_id target_ou dry_run =
         Some (run_existing_ou validate_ou_name fuel orgs_client confirm account_id target_ou dry_run)
       \<or> run_existing_ou validate_ou_name fuel orgs_client confirm account_id target_ou dry_run =
            \<lparr>report = FindTargetOUFailed recursion_error, move_calls = []\<rparr>)
   \<and> (simple fuel orgs_client confirm source target_ou dry_run =
         Some (run_simple fuel orgs_client confirm source target_ou dry_run)
       \<or> run_simple fuel orgs_client confirm source target_ou dry_run =
            \<lparr>report = FindTargetOUFailed recursion_error, move_calls = []\<rparr>)"
proof (intro conjI impI)
  assume "isdigit account_id \<and> length account_id = 12 \<and> validate_ou_name target_ou
      \<and> describe_account orgs_client account_id = Inr account
      \<and> list_parents orgs_client account_id = Inr parents
      \<and> get_root_id orgs_client = Inr root_id
      \<and> existing_ou_find_ou_by_name fuel orgs_client root_id target_ou = None"
  then show "run_existing_ou validate_ou_name fuel orgs_client confirm account_id target_ou dry_run =
            \<lparr>report = FindTargetOUFailed recursion_error, move_calls = []\<rparr>"
    by (simp add: run_existing_ou_def existing_ou_def finished_def)
next
  assume "find_source_account orgs_client source = Inr found_id
      \<and> get_root_id orgs_client = Inr root_id
      \<and> simple_find_ou_by_name fuel orgs_client root_id target_ou = None"
  then show "run_simple fuel orgs_client confirm source target_ou dry_run =
            \<lparr>report = FindTargetOUFailed recursion_error, move_calls = []\<rparr>"
    by (simp add: run_simple_def simple_def finished_def)
next
  assume a: "height_bounded h orgs_client \<and> h root_id < fuel"
  then have h: "height_bounded h orgs_client" and l: "h root_id < fuel" by simp_all
  from find_ou_by_name_with_returns[OF h l]
  show "\<exists>r. simple_find_ou_by_name fuel orgs_client root_id target_ou = Some r"
    by (simp add: simple_find_ou_by_name_def)
  from find_ou_by_name_with_returns[OF h l]
  show "\<exists>r. existing_ou_find_ou_by_name fuel orgs_client root_id target_ou = Some r"
    by (simp add: existing_ou_find_ou_by_name_def)
next
  show "existing_ou validate_ou_name fuel orgs_client confirm account_id target_ou dry_run =
         Some (run_existing_ou validate_ou_name fuel orgs_client confirm account_id target_ou dry_run)
       \<or> run_existing_ou validate_ou_name fuel orgs_client confirm account_id target_ou dry_run =
            \<lparr>report = FindTargetOUFailed recursion_error, move_calls = []\<rparr>"
    by (cases "existing_ou validate_ou_name fuel orgs_client confirm account_id target_ou dry_run")
       (simp_all add: run_existing_ou_def finished_def)
next
  show "simple fuel orgs_client confirm source target_ou dry_run =
         Some (run_simple fuel orgs_client confirm source target_ou dry_run)
       \<or> run_simple fuel orgs_client confirm source target_ou dry_run =
            \<lparr>report = FindTargetOUFailed recursion_error, move_calls = []\<rparr>"
    by (cases "simple fuel orgs_client confirm source target_ou dry_run")
       (simp_all add: run_simple_def finished_def)
qed

theorem find_ou_by_name_bounded_by_recursion_limit_witness:
  "simple_find_ou_by_name 1000 cyclic_orgs ''r-root'' ''Sandbox'' = None
   \<and> existing_ou_find_ou_by_name 1000 cyclic_orgs ''r-root'' ''Sandbox'' = None
   \<and> run_existing_ou (\<lambda>n. True) 1000 cyclic_orgs True ''111122223333'' ''Sandbox'' False =
       \<lparr>report = FindTargetOUFailed recursion_error, move_calls = []\<rparr>
   \<and> run_simple 1000 cyclic_orgs True ''dev'' ''Sandbox'' False =
       \<lparr>report = FindTargetOUFailed recursion_error, move_calls = []\<rparr>
   \<and> height_bounded two_sandboxes_height two_sandboxes
   \<and> two_sandboxes_height ''r-root'' < 3
   \<and> simple_find_ou_by_name 3 two_sandboxes ''r-root'' ''Sandbox'' = Some (Inr (Some ''ou-a-sandbox''))
   \<and> (\<exists>r. existing_ou_find_ou_by_name 3 two_sandboxes ''r-root'' ''Sandbox'' = Some r)"
proof -
  have d: "isdigit ''111122223333'' \<and> length ''111122223333'' = 12"
    by (simp add: isdigit_def isdigit_char_def)
  have a: "describe_account cyclic_orgs ''111122223333'' =
             Inr \<lparr>acct_Id = ''111122223333'', acct_Name = ''dev'', acct_Email = ''dev@example.com''\<rparr>"
    by (simp add: cyclic_orgs_def two_sandboxes_def)
  have p: "list_parents cyclic_orgs ''111122223333'' = Inr [''ou-a-sandbox'']"
    by (simp add: cyclic_orgs_def two_sandboxes_def)
  have r: "get_root_id cyclic_orgs = Inr ''r-root''"
    by (simp add: get_root_id_def cyclic_orgs_def two_sandboxes_def)
  have s: "find_source_account cyclic_orgs ''dev'' = Inr ''111122223333''"
    by code_simp
  have e: "existing_ou_find_ou_by_name 1000 cyclic_orgs ''r-root'' ''Sandbox'' = None"
    and f: "simple_find_ou_by_name 1000 cyclic_orgs ''r-root'' ''Sandbox'' = None"
    by (simp_all add: find_ou_by_name_cyclic)
  have h: "height_bounded two_sandboxes_height two_sandboxes"
    by (simp add: height_bounded_def two_sandboxes_def two_sandboxes_height_def)
  have l: "two_sandboxes_height ''r-root'' < 3"
    by (simp add: two_sandboxes_height_def)
  have g: "simple_find_ou_by_name 3 two_sandboxes ''r-root'' ''Sandbox'' = Some (Inr (Some ''ou-a-sandbox''))"
    by code_simp
  from find_ou_by_name_bounded_by_recursion_limit
         [of "''111122223333''" "\<lambda>n. True" "''Sandbox''" cyclic_orgs _ _ "''r-root''" 1000
             True False "''dev''" "''111122223333''"]
       d a p r s e f
  have 1: "run_existing_ou (\<lambda>n. True) 1000 cyclic_orgs True ''111122223333'' ''Sandbox'' False =
       \<lparr>report = FindTargetOUFailed recursion_error, move_calls = []\<rparr>
   \<and> run_simple 1000 cyclic_orgs True ''dev'' ''Sandbox'' False =
       \<lparr>report = FindTargetOUFailed recursion_error, move_calls = []\<rparr>"
    by simp
  from find_ou_by_name_bounded_by_recursion_limit
         [of _ _ "''Sandbox''" two_sandboxes _ _ "''r-root''" 3 _ _ _ _ two_sandboxes_height]
       h l
  have 2: "\<exists>r. existing_ou_find_ou_by_name 3 two_sandboxes ''r-root'' ''Sandbox'' = Some r"
    by simp
  from e f 1 h l g 2 show ?thesis by simp
qed

text \<open>
  Claim C9 says that the traversal enforces a maximum depth and fails with
  \<open>MalformedHierarchy\<close>. On the cyclic hierarchy below the traversal is still going down
  after a thousand levels, and what the commands report, once the interpreter has
  stopped it, is the failure to find the target unit, with the text of the
  \<open>RecursionError\<close>.
\<close>

theorem find_ou_by_name_no_depth_guard_counterexample:
  "existing_ou_find_ou_by_name 1000 cyclic_orgs ''r-root'' ''Sandbox'' = None
   \<and> existing_ou (\<lambda>n. True) 1000 cyclic_orgs True ''111122223333'' ''Sandbox'' True = None
   \<and> report (run_existing_ou (\<lambda>n. True) 1000 cyclic_orgs True ''111122223333'' ''Sandbox'' True) =
       FindTargetOUFailed ''maximum recursion depth exceeded''
   \<and> simple 1000 cyclic_orgs True ''111122223333'' ''Sandbox'' True = None
   \<and> report (run_simple 1000 cyclic_orgs True ''111122223333'' ''Sandbox'' True) =
       FindTargetOUFailed ''maximum recursion depth exceeded''"
proof -
  have d: "isdigit ''111122223333'' \<and> length ''111122223333'' = 12"
    by (simp add: isdigit_def isdigit_char_def)
  have a: "describe_account cyclic_orgs ''111122223333'' =
             Inr \<lparr>acct_Id = ''111122223333'', acct_Name = ''dev'', acct_Email = ''dev@example.com''\<rparr>"
    by (simp add: cyclic_orgs_def two_sandboxes_def)
  have p: "list_parents cyclic_orgs ''111122223333'' = Inr [''ou-a-sandbox'']"
    by (simp add: cyclic_orgs_def two_sandboxes_def)
  have r: "get_root_id cyclic_orgs = Inr ''r-root''"
    by (simp add: get_root_id_def cyclic_orgs_def two_sandboxes_def)
  have s: "find_source_account cyclic_orgs ''111122223333'' = Inr ''111122223333''"
    using d a by (simp add: find_source_account_def)
  have 1: "existing_ou (\<lambda>n. True) 1000 cyclic_orgs True ''111122223333'' ''Sandbox'' True = None"
    using d a p r by (simp add: existing_ou_def find_ou_by_name_cyclic)
  have 2: "simple 1000 cyclic_orgs True ''111122223333'' ''Sandbox'' True = None"
    using s r by (simp add: simple_def find_ou_by_name_cyclic)
  show ?thesis
    using 1 2
    by (simp add: run_existing_ou_def run_simple_def finished_def recursion_error_def
          find_ou_by_name_cyclic)
qed

section \<open>OU resolution: letter case\<close>

text \<open>
  The copy of \<open>find_ou_by_name\<close> in \<open>simple\<close> sees the query through \<open>lower\<close> only: two
  queries that differ in letter case resolve alike.
\<close>

lemma find_ou_by_name_with_cong:
  assumes "\<And>a. eq a n1 = eq a n2"
  shows "find_ou_by_name_with eq fuel orgs p n1 = find_ou_by_name_with eq fuel orgs p n2"
proof (induction fuel arbitrary: p)
  case 0
  then show ?case by simp
next
  case (Suc fuel)
  have pg: "scan_page eq (\<lambda>child. find_ou_by_name_with eq fuel orgs child n1) ous n1 =
        scan_page eq (\<lambda>child. find_ou_by_name_with eq fuel orgs child n2) ous n2" for ous
    by (induction ous) (auto simp: assms Suc split: option.splits sum.splits)
  have "scan_pages eq (\<lambda>child. find_ou_by_name_with eq fuel orgs child n1) pages n1 =
        scan_pages eq (\<lambda>child. find_ou_by_name_with eq fuel orgs child n2) pages n2" for pages
    by (induction pages) (auto simp: pg split: sum.splits option.splits)
  then show ?case by simp
qed

lemma simple_find_ou_by_name_case_insensitive:
  "lower n1 = lower n2 \<Longrightarrow>
   simple_find_ou_by_name fuel orgs_client parent_id n1 =
   simple_find_ou_by_name fuel orgs_client parent_id n2"
  unfolding simple_find_ou_by_name_def
  by (rule find_ou_by_name_with_cong) simp

text \<open>
  Claim C3 fails on the copy in \<open>existing_ou\<close>, which compares with \<open>==\<close>: the query
  \<open>Sandbox\<close> resolves to the unit of that name and the query \<open>sandbox\<close> resolves to
  nothing.
\<close>

theorem existing_ou_find_ou_by_name_case_sensitive:
  "existing_ou_find_ou_by_name 3 two_sandboxes ''r-root'' ''Sandbox'' = Some (Inr (Some ''ou-a-sandbox''))
   \<and> existing_ou_find_ou_by_name 3 two_sandboxes ''r-root'' ''sandbox'' = Some (Inr None)
   \<and> simple_find_ou_by_name 3 two_sandboxes ''r-root'' ''sandbox'' = Some (Inr (Some ''ou-a-sandbox''))"
  by code_simp

section \<open>The move commands: when \<open>move_account\<close> is called\<close>

lemma move_calls_finished: "move_calls (finished r) = []"
  by (simp add: finished_def)

lemma perform_move_calls:
  "move_calls (perform_move orgs confirm dry_run a cp i) \<noteq> [] \<Longrightarrow>
     \<not> dry_run \<and> confirm \<and>
     (\<exists>p. cp = Some p \<and>
        move_calls (perform_move orgs confirm dry_run a cp i) =
          [\<lparr>AccountId = a, SourceParentId = p, DestinationParentId = i\<rparr>])"
  by (auto simp: perform_move_def move_calls_finished split: if_splits option.splits)

lemma first_parent_Some: "first_parent ps = Some p \<Longrightarrow> \<exists>rest. ps = p # rest"
  by (cases ps) (auto simp: first_parent_def)

text \<open>
  Claim C7. A run of \<open>existing_ou\<close> or of \<open>simple\<close> that issues a \<open>move_account\<close> call is
  a live run (\<open>dry_run\<close> off) that the operator confirmed, in which planning succeeded:
  the account was resolved, \<open>list_parents\<close> gave a current parent, the root was found and
  the search for the target unit returned a non-empty id; and the call it issues is the
  single call from that parent to that unit. Hence a dry run, and a run whose target
  unit is not found, issue no mutating call.
\<close>

theorem move_account_only_after_planning:
  "(existing_ou validate_ou_name fuel orgs_client confirm account_id target_ou dry_run = Some out
      \<and> move_calls out \<noteq> [] \<longrightarrow>
      \<not> dry_run \<and> confirm
      \<and> (\<exists>account. describe_account orgs_client account_id = Inr account)
      \<and> (\<exists>parent rest root_id target_ou_id.
            list_parents orgs_client account_id = Inr (parent # rest)
          \<and> get_root_id orgs_client = Inr root_id
          \<and> existing_ou_find_ou_by_name fuel orgs_client root_id target_ou =
              Some (Inr (Some target_ou_id))
          \<and> target_ou_id \<noteq> []
          \<and> move_calls out = [\<lparr>AccountId = account_id, SourceParentId = parent,
                                DestinationParentId = target_ou_id\<rparr>]))
   \<and> (simple fuel orgs_client confirm source target_ou dry_run = Some out'
      \<and> move_calls out' \<noteq> [] \<longrightarrow>
      \<not> dry_run \<and> confirm
      \<and> (\<exists>found_id parent rest root_id target_ou_id.
            find_source_account orgs_client source = Inr found_id
          \<and> list_parents orgs_client found_id = Inr (parent # rest)
          \<and> get_root_id orgs_client = Inr root_id
          \<and> simple_find_ou_by_name fuel orgs_client root_id target_ou =
              Some (Inr (Some target_ou_id))
          \<and> target_ou_id \<noteq> []
          \<and> move_calls out' = [\<lparr>AccountId = found_id, SourceParentId = parent,
                                 DestinationParentId = target_ou_id\<rparr>]))"
proof (intro conjI impI)
  assume a: "existing_ou validate_ou_name fuel orgs_client confirm account_id target_ou dry_run = Some out
      \<and> move_calls out \<noteq> []"
  then obtain account parents root_id i where
    d: "describe_account orgs_client account_id = Inr account" and
    l: "list_parents orgs_client account_id = Inr parents" and
    r: "get_root_id orgs_client = Inr root_id" and
    f: "existing_ou_find_ou_by_name fuel orgs_client root_id target_ou = Some (Inr (Some i))" and
    i: "i \<noteq> []" and
    out: "out = perform_move orgs_client confirm dry_run account_id (first_parent parents) i"
    by (auto simp: existing_ou_def move_calls_finished split: if_splits sum.splits option.splits)
  from a out perform_move_calls[of orgs_client confirm dry_run account_id "first_parent parents" i]
  obtain p where nd: "\<not> dry_run" and c: confirm and fp: "first_parent parents = Some p" and
    mc: "move_calls out = [\<lparr>AccountId = account_id, SourceParentId = p, DestinationParentId = i\<rparr>]"
    by auto
  from first_parent_Some[OF fp] obtain rest where "parents = p # rest" ..
  with d l r f i mc nd c
  show "\<not> dry_run" and confirm and "\<exists>account. describe_account orgs_client account_id = Inr account"
    and "\<exists>parent rest root_id target_ou_id.
            list_parents orgs_client account_id = Inr (parent # rest)
          \<and> get_root_id orgs_client = Inr root_id
          \<and> existing_ou_find_ou_by_name fuel orgs_client root_id target_ou =
              Some (Inr (Some target_ou_id))
          \<and> target_ou_id \<noteq> []
          \<and> move_calls out = [\<lparr>AccountId = account_id, SourceParentId = parent,
                                DestinationParentId = target_ou_id\<rparr>]"
    by auto
next
  assume a: "simple fuel orgs_client confirm source target_ou dry_run = Some out'
      \<and> move_calls out' \<noteq> []"
  then obtain found_id parents root_id i where
    s: "find_source_account orgs_client source = Inr found_id" and
    l: "list_parents orgs_client found_id = Inr parents" and
    r: "get_root_id orgs_client = Inr root_id" and
    f: "simple_find_ou_by_name fuel orgs_client root_id target_ou = Some (Inr (Some i))" and
    i: "i \<noteq> []" and
    out: "out' = perform_move orgs_client confirm dry_run found_id (first_parent parents) i"
    by (auto simp: simple_def move_calls_finished split: if_splits sum.splits option.splits)
  from a out perform_move_calls[of orgs_client confirm dry_run found_id "first_parent parents" i]
  obtain p where nd: "\<not> dry_run" and c: confirm and fp: "first_parent parents = Some p" and
    mc: "move_calls out' = [\<lparr>AccountId = found_id, SourceParentId = p, DestinationParentId = i\<rparr>]"
    by auto
  from first_parent_Some[OF fp] obtain rest where "parents = p # rest" ..
  with s l r f i mc nd c
  show "\<not> dry_run" and confirm
    and "\<exists>found_id parent rest root_id target_ou_id.
            find_source_account orgs_client source = Inr found_id
          \<and> list_parents orgs_client found_id = Inr (parent # rest)
          \<and> get_root_id orgs_client = Inr root_id
          \<and> simple_find_ou_by_name fuel orgs_client root_id target_ou =
              Some (Inr (Some target_ou_id))
          \<and> target_ou_id \<noteq> []
          \<and> move_calls out' = [\<lparr>AccountId = found_id, SourceParentId = parent,
                                 DestinationParentId = target_ou_id\<rparr>]"
    by auto
qed

theorem move_account_only_after_planning_witness:
  "existing_ou (\<lambda>n. True) 3 two_sandboxes True ''111122223333'' ''B'' False =
     Some \<lparr>report = Moved,
           move_calls = [\<lparr>AccountId = ''111122223333'', SourceParentId = ''ou-a-sandbox'',
                          DestinationParentId = ''ou-b''\<rparr>]\<rparr>
   \<and> simple 3 two_sandboxes True ''dev'' ''b'' False =
     Some \<lparr>report = Moved,
           move_calls = [\<lparr>AccountId = ''111122223333'', SourceParentId = ''ou-a-sandbox'',
                          DestinationParentId = ''ou-b''\<rparr>]\<rparr>
   \<and> list_parents two_sandboxes ''111122223333'' = Inr [''ou-a-sandbox'']
   \<and> get_root_id two_sandboxes = Inr ''r-root''
   \<and> existing_ou_find_ou_by_name 3 two_sandboxes ''r-root'' ''B'' = Some (Inr (Some ''ou-b''))
   \<and> find_source_account two_sandboxes ''dev'' = Inr ''111122223333''
   \<and> simple_find_ou_by_name 3 two_sandboxes ''r-root'' ''b'' = Some (Inr (Some ''ou-b''))"
proof -
  have e: "existing_ou (\<lambda>n. True) 3 two_sandboxes True ''111122223333'' ''B'' False =
     Some \<lparr>report = Moved,
           move_calls = [\<lparr>AccountId = ''111122223333'', SourceParentId = ''ou-a-sandbox'',
                          DestinationParentId = ''ou-b''\<rparr>]\<rparr>"
    by code_simp
  have s: "simple 3 two_sandboxes True ''dev'' ''b'' False =
     Some \<lparr>report = Moved,
           move_calls = [\<lparr>AccountId = ''111122223333'', SourceParentId = ''ou-a-sandbox'',
                          DestinationParentId = ''ou-b''\<rparr>]\<rparr>"
    by code_simp
  from move_account_only_after_planning
    [of "\<lambda>n. True" 3 two_sandboxes True "''111122223333''" "''B''" False
        "\<lparr>report = Moved,
           move_calls = [\<lparr>AccountId = ''111122223333'', SourceParentId = ''ou-a-sandbox'',
                          DestinationParentId = ''ou-b''\<rparr>]\<rparr>"] e
  have 1: "list_parents two_sandboxes ''111122223333'' = Inr [''ou-a-sandbox'']
   \<and> get_root_id two_sandboxes = Inr ''r-root''
   \<and> existing_ou_find_ou_by_name 3 two_sandboxes ''r-root'' ''B'' = Some (Inr (Some ''ou-b''))"
    by (auto simp: two_sandboxes_def get_root_id_def)
  from move_account_only_after_planning
    [of "\<lambda>n. True" 3 two_sandboxes True "''dev''" "''b''" False _ "''dev''"
        "\<lparr>report = Moved,
           move_calls = [\<lparr>AccountId = ''111122223333'', SourceParentId = ''ou-a-sandbox'',
                          DestinationParentId = ''ou-b''\<rparr>]\<rparr>"] s
  have 2: "find_source_account two_sandboxes ''dev'' = Inr ''111122223333''
   \<and> simple_find_ou_by_name 3 two_sandboxes ''r-root'' ''b'' = Some (Inr (Some ''ou-b''))"
    by (auto simp: two_sandboxes_def get_root_id_def)
  from e s 1 2 show ?thesis by simp
qed





section \<open>The source account of \<open>simple\<close>\<close>







section \<open>The Request Ledger: what the operations do to the store\<close>

lemma get_table_cases:
  "get_table self =
     (case load (dynamodb self) of
        Inr t \<Rightarrow> (Inr t, self)
      | Inl code \<Rightarrow>
          (if code = ''ResourceNotFoundException''
           then Inl (ParamValidationError unknown_parameter)
           else Inl (Exception ''DynamoDB error: '' (ClientError code)), self))"
  by (simp add: get_table_def create_table_def split: sum.splits)


lemma get_table_ok:
  "fault (dynamodb self) = None \<Longrightarrow> table (dynamodb self) = Some t \<Longrightarrow>
   get_table self = (Inr t, self)"
  by (simp add: get_table_cases load_def)

lemma get_table_without_table:
  "table (dynamodb self) = None \<Longrightarrow> \<exists>e. get_table self = (Inl e, self)"
  by (simp add: get_table_cases load_def split: option.splits)

lemma put_item_to_dict:
  "put_item t (to_dict r) = Inr (t(request_id r \<mapsto> to_dict r))"
  by (simp add: put_item_def to_dict_def)

text \<open>
  Without the table no operation reaches the store: \<open>_get_table\<close> raises, since
  \<open>_create_table\<close> does, and nothing is stored or created.
\<close>

lemma operations_without_table:
  assumes "table (dynamodb self) = None"
  shows "\<exists>e. create_account_request self r = (Inl e, self)"
    and "\<exists>e. get_account_request self rid = (Inl e, self)"
    and "\<exists>e. update_account_request self now rid updates = (Inl e, self)"
  using get_table_without_table[OF assms]
  by (auto simp: create_account_request_def get_account_request_def
        update_account_request_def)

text \<open>
  Claim C1, as the code has it. \<open>create_account_request\<close> puts the item without a
  condition: when the table exists and the service accepts the call it succeeds,
  whether or not a record with that \<open>request_id\<close> is stored, and afterwards the record
  stored under the \<open>request_id\<close> is the new request; every other record is as before.
  There is no \<open>AlreadyExists\<close>.
\<close>

theorem create_account_request_replaces:
  assumes "fault (dynamodb self) = None"
    and "table (dynamodb self) = Some t"
  shows "create_account_request self r =
           (Inr (request_id r),
            self\<lparr>dynamodb := (dynamodb self)
              \<lparr>table := Some (t(request_id r \<mapsto> to_dict r))\<rparr>\<rparr>)"
  by (simp add: create_account_request_def get_table_ok[OF assms] put_item_to_dict)

theorem create_account_request_replaces_witness:
  "fault (dynamodb ledger_manager) = None
   \<and> table (dynamodb ledger_manager) =
       Some [''migrate-2025-01-10-abc12345'' \<mapsto> to_dict pending_request]
   \<and> create_account_request ledger_manager colliding_request =
       (Inr ''migrate-2025-01-10-abc12345'',
        ledger_manager\<lparr>dynamodb := (dynamodb ledger_manager)
          \<lparr>table := Some [''migrate-2025-01-10-abc12345'' \<mapsto> to_dict colliding_request]\<rparr>\<rparr>)"
proof -
  have f: "fault (dynamodb ledger_manager) = None"
    by (simp add: ledger_manager_def)
  have t: "table (dynamodb ledger_manager) =
       Some [''migrate-2025-01-10-abc12345'' \<mapsto> to_dict pending_request]"
    by (simp add: ledger_manager_def)
  have i: "request_id colliding_request = ''migrate-2025-01-10-abc12345''"
    by (simp add: colliding_request_def)
  from create_account_request_replaces[OF f t, of colliding_request] f t i
  show ?thesis by simp
qed

text \<open>
  Claim C1 says that a put colliding with a stored record fails and leaves that record
  unchanged. It succeeds, and the record of \<open>pending_request\<close> is replaced by the
  different record of \<open>colliding_request\<close>.
\<close>

theorem create_account_request_overwrites_counterexample:
  "stored_requests ledger_manager ''migrate-2025-01-10-abc12345'' = Some (to_dict pending_request)
   \<and> request_id colliding_request = ''migrate-2025-01-10-abc12345''
   \<and> fst (create_account_request ledger_manager colliding_request) = Inr ''migrate-2025-01-10-abc12345''
   \<and> stored_requests (snd (create_account_request ledger_manager colliding_request))
        ''migrate-2025-01-10-abc12345'' = Some (to_dict colliding_request)
   \<and> to_dict colliding_request \<noteq> to_dict pending_request"
  by (simp add: create_account_request_def get_table_cases load_def put_item_def to_dict_def
        stored_requests_def ledger_manager_def colliding_request_def pending_request_def)



section \<open>The status report\<close>

text \<open>\<open>get_aft_status\<close> never reads the Pipeline Service.\<close>

lemma get_aft_status_codepipeline:
  "fst (get_aft_status (self\<lparr>codepipeline := cp\<rparr>) rid) = fst (get_aft_status self rid)"
  by (simp add: get_aft_status_def get_account_request_def get_table_cases load_def
           split: option.splits)

text \<open>
  Claim C2 fails on the code: for the Ledger record with status \<open>pending\<close> next to a
  pipeline whose latest execution is \<open>InProgress\<close> (which \<open>list_aft_pipelines\<close> does
  report), the pipeline status that \<open>get_aft_status\<close> reports is \<open>pending\<close>, the status
  of the Ledger record itself. The Ledger is not altered.
\<close>

theorem get_aft_status_mirrors_ledger:
  "fst (get_aft_status ledger_manager ''migrate-2025-01-10-abc12345'') =
     Inr (Some \<lparr>status_request_id = ''migrate-2025-01-10-abc12345'',
                pipeline_status = ''pending'',
                status_account_id = None, last_updated = None\<rparr>)
   \<and> snd (get_aft_status ledger_manager ''migrate-2025-01-10-abc12345'') = ledger_manager
   \<and> list_aft_pipelines ledger_manager =
       [\<lparr>pipeline_name = ''aft-account-provisioning-framework'',
         pipelineExecutionSummaries =
           [\<lparr>pipelineExecutionId = ''exec-1'', execution_status = ''InProgress''\<rparr>]\<rparr>]"
proof -
  have a: "fst (get_aft_status ledger_manager ''migrate-2025-01-10-abc12345'') =
     Inr (Some \<lparr>status_request_id = ''migrate-2025-01-10-abc12345'',
                pipeline_status = ''pending'',
                status_account_id = None, last_updated = None\<rparr>)"
    by (simp add: get_aft_status_def get_account_request_def get_table_cases load_def
          ledger_manager_def to_dict_def pending_request_def str_if_truthy_def)
  have b: "snd (get_aft_status ledger_manager ''migrate-2025-01-10-abc12345'') = ledger_manager"
    by (simp add: get_aft_status_def get_account_request_def get_table_cases load_def
          ledger_manager_def to_dict_def pending_request_def)
  have c: "list_aft_pipelines ledger_manager =
       [\<lparr>pipeline_name = ''aft-account-provisioning-framework'',
         pipelineExecutionSummaries =
           [\<lparr>pipelineExecutionId = ''exec-1'', execution_status = ''InProgress''\<rparr>]\<rparr>]"
    by code_simp
  from a b c show ?thesis by simp
qed

section \<open>The Request Ledger: updates\<close>

text \<open>What the loop of \<open>update_account_request\<close> builds for the entries of \<open>updates\<close>.\<close>

lemma build_update_expression:
  "UpdateExpression (build_update us kw) =
     UpdateExpression kw @
       map (\<lambda>kv. if fst kv = ''status'' then (NameRef ''#status'', '':status'')
                  else (Attr (fst kv), '':'' @ fst kv)) us"
  by (induction us arbitrary: kw) (simp_all add: add_clause_def)

lemma build_update_values_other:
  "k \<notin> fst ` set us \<Longrightarrow>
   map_of (ExpressionAttributeValues (build_update us kw)) ('':'' @ k) =
   map_of (ExpressionAttributeValues kw) ('':'' @ k)"
  by (induction us arbitrary: kw) (auto simp: add_clause_def update_conv')

lemma build_update_values:
  "distinct (map fst us) \<Longrightarrow> (k, v) \<in> set us \<Longrightarrow>
   map_of (ExpressionAttributeValues (build_update us kw)) ('':'' @ k) = Some v"
proof (induction us arbitrary: kw)
  case Nil
  then show ?case by simp
next
  case (Cons kv us)
  show ?case
  proof (cases "(k, v) = kv")
    case True
    with Cons.prems(1) have "k \<notin> fst ` set us" by (cases kv) force
    from build_update_values_other[OF this] True show ?thesis
      by (auto simp: add_clause_def update_conv')
  next
    case False
    with Cons show ?thesis by simp
  qed
qed

lemma build_update_names_kept:
  "map_of (ExpressionAttributeNames kw) ''#status'' = Some ''status'' \<Longrightarrow>
   map_of (ExpressionAttributeNames (build_update us kw)) ''#status'' = Some ''status''"
  by (induction us arbitrary: kw) (simp_all add: add_clause_def update_conv')

lemma build_update_names:
  "''status'' \<in> fst ` set us \<Longrightarrow>
   map_of (ExpressionAttributeNames (build_update us kw)) ''#status'' = Some ''status''"
proof (induction us arbitrary: kw)
  case Nil
  then show ?case by simp
next
  case (Cons kv us)
  show ?case
  proof (cases "fst kv = ''status''")
    case True
    then show ?thesis
      by (simp add: add_clause_def build_update_names_kept update_conv')
  next
    case False
    with Cons show ?thesis by auto
  qed
qed

lemma apply_clauses_merges:
  assumes "distinct (map fst us)"
    and "\<forall>(k, v) \<in> set us. map_of vals ('':'' @ k) = Some v"
    and "''status'' \<in> fst ` set us \<longrightarrow> map_of names ''#status'' = Some ''status''"
    and "\<forall>k \<in> fst ` set us. k \<noteq> ''request_id'' \<and> (k \<noteq> ''status'' \<longrightarrow> \<not> rej k)"
  shows "\<exists>it'. apply_clauses rej vals names
           (map (\<lambda>kv. if fst kv = ''status'' then (NameRef ''#status'', '':status'')
                      else (Attr (fst kv), '':'' @ fst kv)) us) it = Inr it'
         \<and> (\<forall>k. map_of it' k = (case map_of us k of Some v \<Rightarrow> Some v | None \<Rightarrow> map_of it k))"
  using assms
proof (induction us arbitrary: it)
  case Nil
  then show ?case by simp
next
  case (Cons kv us)
  obtain k0 v0 where kv: "kv = (k0, v0)" by (cases kv)
  from Cons.prems kv have d: "distinct (map fst us)" and nin: "k0 \<notin> fst ` set us" by auto
  from Cons.prems(2) have vs: "\<forall>(k, v) \<in> set us. map_of vals ('':'' @ k) = Some v" by auto
  from Cons.prems(2) kv have v0: "map_of vals ('':'' @ k0) = Some v0" by auto
  from Cons.prems(4) kv have ok0: "k0 \<noteq> ''request_id''" "k0 \<noteq> ''status'' \<longrightarrow> \<not> rej k0" by auto
  from Cons.IH[OF d vs, of "AList.update k0 v0 it"] Cons.prems(3,4)
  obtain it' where
    a: "apply_clauses rej vals names
           (map (\<lambda>kv. if fst kv = ''status'' then (NameRef ''#status'', '':status'')
                      else (Attr (fst kv), '':'' @ fst kv)) us) (AList.update k0 v0 it) = Inr it'"
    and m: "\<forall>k. map_of it' k =
              (case map_of us k of Some v \<Rightarrow> Some v | None \<Rightarrow> map_of (AList.update k0 v0 it) k)"
    by auto
  have none: "map_of us k0 = None" using nin by (simp add: map_of_eq_None_iff)
  have step: "apply_clauses rej vals names
           (map (\<lambda>kv. if fst kv = ''status'' then (NameRef ''#status'', '':status'')
                      else (Attr (fst kv), '':'' @ fst kv)) (kv # us)) it = Inr it'"
  proof (cases "k0 = ''status''")
    case True
    with Cons.prems(3) kv have "map_of names ''#status'' = Some ''status''" by simp
    with True v0 a kv show ?thesis by simp
  next
    case False
    with ok0 v0 a kv show ?thesis by simp
  qed
  have "\<forall>k. map_of it' k = (case map_of (kv # us) k of Some v \<Rightarrow> Some v | None \<Rightarrow> map_of it k)"
    using m none kv by (auto simp: update_conv' split: option.splits)
  with step show ?case by blast
qed

text \<open>
  Claim C5, as the code has it. When the table exists, the service accepts the call,
  \<open>updates\<close> is a dict (distinct keys) without the key attribute \<open>request_id\<close>, and the
  service rejects none of its names (\<open>status\<close> is escaped by the code, \<open>updated_date\<close>
  is added by it), the update succeeds for every \<open>request_id\<close>, stored or not. The
  record after it starts from the stored record, or from a new record made of the key
  when none is stored; it holds \<open>updated_date = now\<close>, the given value for every given
  field, and the old value for every other field. Every other record is as before.
\<close>

theorem update_account_request_upserts:
  assumes "fault (dynamodb self) = None"
    and "table (dynamodb self) = Some t"
    and "distinct (map fst updates)"
    and "\<forall>k \<in> fst ` set updates. k \<noteq> ''request_id'' \<and> (k \<noteq> ''status'' \<longrightarrow> \<not> rejects (dynamodb self) k)"
    and "\<not> rejects (dynamodb self) ''updated_date''"
  shows "\<exists>it'. update_account_request self now rid updates =
           (Inr it', self\<lparr>dynamodb := (dynamodb self)\<lparr>table := Some (t(rid \<mapsto> it'))\<rparr>\<rparr>)
       \<and> (\<forall>k. map_of it' k =
            (if k = ''updated_date'' then Some (VStr now)
             else case map_of updates k of
                    Some v \<Rightarrow> Some v
                  | None \<Rightarrow> map_of (case t rid of
                                      None \<Rightarrow> [(''request_id'', VStr rid)]
                                    | Some it \<Rightarrow> it) k))"
proof -
  let ?us = "AList.update ''updated_date'' (VStr now) updates"
  let ?kw0 = "\<lparr>UpdateExpression = [], ExpressionAttributeValues = [],
               ExpressionAttributeNames = []\<rparr>"
  let ?kw = "build_update ?us ?kw0"
  let ?it = "case t rid of None \<Rightarrow> [(''request_id'', VStr rid)] | Some it \<Rightarrow> it"
  have d: "distinct (map fst ?us)" using assms(3) by (simp add: distinct_update)
  have keys: "fst ` set ?us = insert ''updated_date'' (fst ` set updates)"
    by (simp add: update_keys image_iff) (auto simp: dom_update)
  have e: "UpdateExpression ?kw =
       map (\<lambda>kv. if fst kv = ''status'' then (NameRef ''#status'', '':status'')
                  else (Attr (fst kv), '':'' @ fst kv)) ?us"
    by (simp add: build_update_expression)
  have v: "\<forall>(k, v) \<in> set ?us. map_of (ExpressionAttributeValues ?kw) ('':'' @ k) = Some v"
    using build_update_values[OF d] by blast
  have n: "''status'' \<in> fst ` set ?us \<longrightarrow>
             map_of (ExpressionAttributeNames ?kw) ''#status'' = Some ''status''"
    using build_update_names by blast
  have ok: "\<forall>k \<in> fst ` set ?us. k \<noteq> ''request_id'' \<and> (k \<noteq> ''status'' \<longrightarrow> \<not> rejects (dynamodb self) k)"
    using assms(4,5) unfolding keys by auto
  from apply_clauses_merges[OF d v n ok, of ?it] obtain it' where
    a: "apply_clauses (rejects (dynamodb self)) (ExpressionAttributeValues ?kw)
          (ExpressionAttributeNames ?kw) (UpdateExpression ?kw) ?it = Inr it'"
    and m: "\<forall>k. map_of it' k = (case map_of ?us k of Some v \<Rightarrow> Some v | None \<Rightarrow> map_of ?it k)"
    unfolding e by blast
  have u: "update_account_request self now rid updates =
           (Inr it', self\<lparr>dynamodb := (dynamodb self)\<lparr>table := Some (t(rid \<mapsto> it'))\<rparr>\<rparr>)"
    using a by (simp add: update_account_request_def get_table_ok[OF assms(1,2)] update_item_def)
  have "\<forall>k. map_of it' k =
            (if k = ''updated_date'' then Some (VStr now)
             else case map_of updates k of Some v \<Rightarrow> Some v | None \<Rightarrow> map_of ?it k)"
    using m by (simp add: update_conv')
  with u show ?thesis by blast
qed

theorem update_account_request_upserts_witness:
  "fault (dynamodb ledger_manager) = None
   \<and> table (dynamodb ledger_manager) =
       Some [''migrate-2025-01-10-abc12345'' \<mapsto> to_dict pending_request]
   \<and> (\<exists>it'. update_account_request ledger_manager ''2025-01-11T09:30:00''
              ''migrate-2025-01-10-abc12345'' [(''status'', VStr ''in_progress'')] =
            (Inr it', ledger_manager\<lparr>dynamodb := (dynamodb ledger_manager)
               \<lparr>table := Some [''migrate-2025-01-10-abc12345'' \<mapsto> it']\<rparr>\<rparr>)
          \<and> map_of it' ''status'' = Some (VStr ''in_progress'')
          \<and> map_of it' ''updated_date'' = Some (VStr ''2025-01-11T09:30:00'')
          \<and> map_of it' ''client_id'' = Some (VStr ''acme'')
          \<and> map_of it' ''request_id'' = Some (VStr ''migrate-2025-01-10-abc12345''))"
proof -
  have f: "fault (dynamodb ledger_manager) = None"
    by (simp add: ledger_manager_def)
  have t: "table (dynamodb ledger_manager) =
       Some [''migrate-2025-01-10-abc12345'' \<mapsto> to_dict pending_request]"
    by (simp add: ledger_manager_def)
  have d: "distinct (map fst [(''status'', VStr ''in_progress'')])" by simp
  have k: "\<forall>k \<in> fst ` set [(''status'', VStr ''in_progress'')].
             k \<noteq> ''request_id'' \<and> (k \<noteq> ''status'' \<longrightarrow> \<not> rejects (dynamodb ledger_manager) k)"
    by simp
  have u: "\<not> rejects (dynamodb ledger_manager) ''updated_date''"
    by (simp add: ledger_manager_def)
  from update_account_request_upserts[OF f t d k u, of "''2025-01-11T09:30:00''"
         "''migrate-2025-01-10-abc12345''"]
  obtain it' where
    r: "update_account_request ledger_manager ''2025-01-11T09:30:00''
              ''migrate-2025-01-10-abc12345'' [(''status'', VStr ''in_progress'')] =
            (Inr it', ledger_manager\<lparr>dynamodb := (dynamodb ledger_manager)
               \<lparr>table := Some [''migrate-2025-01-10-abc12345'' \<mapsto> it']\<rparr>\<rparr>)"
    and m: "\<And>k. map_of it' k =
            (if k = ''updated_date'' then Some (VStr ''2025-01-11T09:30:00'')
             else case map_of [(''status'', VStr ''in_progress'')] k of
                    Some v \<Rightarrow> Some v
                  | None \<Rightarrow> map_of (to_dict pending_request) k)"
    by auto
  have "map_of it' ''status'' = Some (VStr ''in_progress'')"
    and "map_of it' ''updated_date'' = Some (VStr ''2025-01-11T09:30:00'')"
    and "map_of it' ''client_id'' = Some (VStr ''acme'')"
    and "map_of it' ''request_id'' = Some (VStr ''migrate-2025-01-10-abc12345'')"
    by (simp_all add: m to_dict_def pending_request_def)
  with f t r show ?thesis by blast
qed

text \<open>
  Claim C5 says that an update of a \<open>request_id\<close> that is not stored fails and
  creates no record. It succeeds and creates one.
\<close>

theorem update_account_request_absent_counterexample:
  "stored_requests ledger_manager ''req-absent'' = None
   \<and> fst (update_account_request ledger_manager ''2025-01-11T09:30:00'' ''req-absent''
            [(''status'', VStr ''failed'')]) =
       Inr [(''request_id'', VStr ''req-absent''), (''status'', VStr ''failed''),
            (''updated_date'', VStr ''2025-01-11T09:30:00'')]
   \<and> stored_requests (snd (update_account_request ledger_manager ''2025-01-11T09:30:00''
            ''req-absent'' [(''status'', VStr ''failed'')])) ''req-absent'' =
       Some [(''request_id'', VStr ''req-absent''), (''status'', VStr ''failed''),
             (''updated_date'', VStr ''2025-01-11T09:30:00'')]"
  by (simp add: update_account_request_def update_item_def get_table_cases load_def
        add_clause_def stored_requests_def ledger_manager_def)


end
